theory Spec2Isabelle
  imports Complex_Main
begin

section \<open>Numeric model\<close>

text \<open>
  The two demos compute with Python floats and two-element numpy arrays. The embedding
  reads every float as a real number and every array as a pair of reals: rounding,
  overflow and signed zeros are outside the model, so each result below is a statement
  about the formulas the code evaluates, in exact arithmetic.
\<close>

type_synonym vec = "real \<times> real"

definition vadd :: "vec \<Rightarrow> vec \<Rightarrow> vec" where
  "vadd a b = (fst a + fst b, snd a + snd b)"

definition vsub :: "vec \<Rightarrow> vec \<Rightarrow> vec" where
  "vsub a b = (fst a - fst b, snd a - snd b)"

definition vscale :: "vec \<Rightarrow> real \<Rightarrow> vec" where
  "vscale a k = (fst a * k, snd a * k)"

definition vdiv :: "vec \<Rightarrow> real \<Rightarrow> vec" where
  "vdiv a k = (fst a / k, snd a / k)"

text \<open>\<^verbatim>\<open>np.linalg.norm\<close> of a two-element array.\<close>

definition vnorm :: "vec \<Rightarrow> real" where
  "vnorm a = sqrt (fst a * fst a + snd a * snd a)"

text \<open>\<^verbatim>\<open>math.degrees\<close>, \<^verbatim>\<open>math.radians\<close>, \<^verbatim>\<open>np.clip\<close> and \<^verbatim>\<open>math.atan2\<close>.\<close>

definition degrees :: "real \<Rightarrow> real" where
  "degrees x = x * (180 / pi)"

definition radians :: "real \<Rightarrow> real" where
  "radians x = x * (pi / 180)"

definition clip :: "real \<Rightarrow> real \<Rightarrow> real \<Rightarrow> real" where
  "clip x lo hi = min (max x lo) hi"

definition atan2 :: "real \<Rightarrow> real \<Rightarrow> real" where
  "atan2 y x =
     (if 0 < x then arctan (y / x)
      else if x < 0 then (if 0 \<le> y then arctan (y / x) + pi else arctan (y / x) - pi)
      else if 0 < y then pi / 2
      else if y < 0 then - (pi / 2)
      else 0)"

section \<open>The keyboard variant: \<^verbatim>\<open>InteractiveCharacter\<close>\<close>

text \<open>
  The fields \<^verbatim>\<open>__init__\<close> assigns and some method writes later are the record; the
  fields it assigns once and nothing writes again are constants.
\<close>

record InteractiveCharacter =
  ic_position :: vec
  ic_velocity :: vec
  ic_rotation :: real
  ic_lean_angle :: real
  ic_ground_speed :: real
  ic_time :: real
  ic_last_rotation :: real
  ic_input_forward :: real
  ic_input_turn :: real

definition max_speed :: real where "max_speed = 3"
definition acceleration :: real where "acceleration = 8"
definition turn_speed :: real where "turn_speed = 5 / 2"
definition friction :: real where "friction = 85 / 100"

definition max_lean_angle :: real where "max_lean_angle = 20"
definition lean_interp_speed :: real where "lean_interp_speed = 6"
definition head_pitch_amplitude :: real where "head_pitch_amplitude = 10"
definition head_yaw_amplitude :: real where "head_yaw_amplitude = 10"
definition head_oscillation_speed :: real where "head_oscillation_speed = 3 / 2"

definition body_height :: real where "body_height = 18 / 10"
definition head_size :: real where "head_size = 2 / 10"
definition leg_length :: real where "leg_length = 9 / 10"

definition InteractiveCharacter_init :: InteractiveCharacter where
  "InteractiveCharacter_init =
     \<lparr> ic_position = (0, 0), ic_velocity = (0, 0), ic_rotation = 0, ic_lean_angle = 0,
       ic_ground_speed = 0, ic_time = 0, ic_last_rotation = 0,
       ic_input_forward = 0, ic_input_turn = 0 \<rparr>"

text \<open>\<^verbatim>\<open>InteractiveCharacter.update\<close>, statement by statement.\<close>

definition InteractiveCharacter_update :: "real \<Rightarrow> InteractiveCharacter \<Rightarrow> InteractiveCharacter" where
  "InteractiveCharacter_update dt s0 =
     (let s1 = s0\<lparr>ic_time := ic_time s0 + dt\<rparr>;
          s2 = (if ic_input_turn s1 \<noteq> 0
                then (let rotation_change = ic_input_turn s1 * turn_speed * dt
                      in s1\<lparr>ic_last_rotation := ic_rotation s1,
                            ic_rotation := ic_rotation s1 + rotation_change\<rparr>)
                else s1);
          cos_r = cos (ic_rotation s2);
          sin_r = sin (ic_rotation s2);
          target_velocity = (ic_input_forward s2 * cos_r * max_speed,
                             ic_input_forward s2 * sin_r * max_speed);
          velocity_diff = vsub target_velocity (ic_velocity s2);
          accel_magnitude = min (acceleration * dt) (vnorm velocity_diff);
          s3 = (if vnorm velocity_diff > 1 / 1000
                then s2\<lparr>ic_velocity :=
                        vadd (ic_velocity s2)
                          (vscale (vdiv velocity_diff (vnorm velocity_diff)) accel_magnitude)\<rparr>
                else s2);
          s4 = s3\<lparr>ic_velocity := vscale (ic_velocity s3) friction\<rparr>;
          s5 = s4\<lparr>ic_position := vadd (ic_position s4) (vscale (ic_velocity s4) dt)\<rparr>;
          s6 = s5\<lparr>ic_ground_speed := vnorm (ic_velocity s5)\<rparr>;
          yaw_rate = (ic_rotation s6 - ic_last_rotation s6) / max dt (1 / 1000);
          s7 = s6\<lparr>ic_last_rotation := ic_rotation s6\<rparr>;
          target_lean = degrees yaw_rate * (1 / 2);
          target_lean' = clip target_lean (- max_lean_angle) max_lean_angle
      in s7\<lparr>ic_lean_angle :=
              ic_lean_angle s7 + (target_lean' - ic_lean_angle s7) * lean_interp_speed * dt\<rparr>)"

text \<open>
  The key handlers of \<^verbatim>\<open>InteractiveRenderer\<close> are the only other writers of the
  character: they set the two inputs, and the space key also zeroes the velocity.
\<close>

definition on_key_press :: "string \<Rightarrow> InteractiveCharacter \<Rightarrow> InteractiveCharacter" where
  "on_key_press key s =
     (if key \<in> {''w'', ''up''} then s\<lparr>ic_input_forward := 1\<rparr>
      else if key \<in> {''s'', ''down''} then s\<lparr>ic_input_forward := - 1\<rparr>
      else if key \<in> {''a'', ''left''} then s\<lparr>ic_input_turn := 1\<rparr>
      else if key \<in> {''d'', ''right''} then s\<lparr>ic_input_turn := - 1\<rparr>
      else if key = '' '' then
        s\<lparr>ic_input_forward := 0, ic_input_turn := 0, ic_velocity := vscale (ic_velocity s) 0\<rparr>
      else s)"

definition on_key_release :: "string \<Rightarrow> InteractiveCharacter \<Rightarrow> InteractiveCharacter" where
  "on_key_release key s =
     (if key \<in> {''w'', ''up'', ''s'', ''down''} then s\<lparr>ic_input_forward := 0\<rparr>
      else if key \<in> {''a'', ''left'', ''d'', ''right''} then s\<lparr>ic_input_turn := 0\<rparr>
      else s)"

datatype key_event = Press string | Release string

fun handle_key :: "key_event \<Rightarrow> InteractiveCharacter \<Rightarrow> InteractiveCharacter" where
  "handle_key (Press k) s = on_key_press k s"
| "handle_key (Release k) s = on_key_release k s"

text \<open>The fixed step \<^verbatim>\<open>update_frame\<close> passes to \<^verbatim>\<open>update\<close> in both demos.\<close>

definition frame_dt :: real where "frame_dt = 1 / 30"

text \<open>
  The states the keyboard demo shows: the initial one and, frame after frame, the one
  \<^verbatim>\<open>update\<close> returns, with any key events handled since the frame before.
\<close>

inductive ic_reachable :: "InteractiveCharacter \<Rightarrow> bool" where
  ic_start: "ic_reachable InteractiveCharacter_init"
| ic_frame: "ic_reachable s \<Longrightarrow>
             ic_reachable (InteractiveCharacter_update frame_dt (fold handle_key evs s))"

section \<open>The scripted variant: \<^verbatim>\<open>ProceduralCharacter\<close>\<close>

record CharacterState =
  cs_position :: vec
  cs_velocity :: vec
  cs_rotation :: real
  cs_lean_angle :: real
  cs_ground_speed :: real
  cs_direction :: real
  cs_time :: real

definition walk_speed :: real where "walk_speed = 2"

definition ProceduralCharacter_init :: CharacterState where
  "ProceduralCharacter_init =
     \<lparr> cs_position = (0, 0), cs_velocity = (0, 0), cs_rotation = 0, cs_lean_angle = 0,
       cs_ground_speed = 0, cs_direction = 0, cs_time = 0 \<rparr>"

text \<open>The two \<^verbatim>\<open>while\<close> loops that bring the angle difference back by whole turns.\<close>

function wrap_down :: "real \<Rightarrow> real" where
  "wrap_down a = (if a > pi then wrap_down (a - 2 * pi) else a)"
  by pat_completeness auto
termination
proof (relation "measure (\<lambda>a. nat \<lceil>a\<rceil>)")
  show "wf (measure (\<lambda>a::real. nat \<lceil>a\<rceil>))" by simp
next
  fix a :: real
  assume h: "pi < a"
  have "a - 2 * pi \<le> a - 1" using pi_ge_two by simp
  then have "\<lceil>a - 2 * pi\<rceil> \<le> \<lceil>a - 1\<rceil>" by (rule ceiling_mono)
  then have "\<lceil>a - 2 * pi\<rceil> < \<lceil>a\<rceil>" by simp
  moreover have "0 < \<lceil>a\<rceil>" using h pi_ge_two by simp
  ultimately show "(a - 2 * pi, a) \<in> measure (\<lambda>a. nat \<lceil>a\<rceil>)" by simp
qed

function wrap_up :: "real \<Rightarrow> real" where
  "wrap_up a = (if a < - pi then wrap_up (a + 2 * pi) else a)"
  by pat_completeness auto
termination
proof (relation "measure (\<lambda>a. nat \<lceil>- a\<rceil>)")
  show "wf (measure (\<lambda>a::real. nat \<lceil>- a\<rceil>))" by simp
next
  fix a :: real
  assume h: "a < - pi"
  have "- (a + 2 * pi) \<le> - a - 1" using pi_ge_two by simp
  then have "\<lceil>- (a + 2 * pi)\<rceil> \<le> \<lceil>- a - 1\<rceil>" by (rule ceiling_mono)
  then have "\<lceil>- (a + 2 * pi)\<rceil> < \<lceil>- a\<rceil>" by simp
  moreover have "0 < \<lceil>- a\<rceil>" using h pi_ge_two by simp
  ultimately show "(a + 2 * pi, a) \<in> measure (\<lambda>a. nat \<lceil>- a\<rceil>)" by simp
qed

declare wrap_down.simps [simp del] wrap_up.simps [simp del]

text \<open>
  Lines 94 to 99 of the scripted demo: the difference of the two angles, then the two
  loops in the order the source runs them.
\<close>

definition normalized_angle_diff :: "real \<Rightarrow> real \<Rightarrow> real" where
  "normalized_angle_diff target_rotation rotation =
     wrap_up (wrap_down (target_rotation - rotation))"

text \<open>Lines 68 to 73: the point of the figure-8 path the character walks toward.\<close>

definition target_position :: "real \<Rightarrow> vec" where
  "target_position time =
     (let t = time * (3 / 10);
          target_x = 3 * sin t;
          target_y = (3 / 2) * sin (2 * t)
      in (target_x, target_y))"

text \<open>\<^verbatim>\<open>ProceduralCharacter.update\<close>, statement by statement.\<close>

definition ProceduralCharacter_update :: "real \<Rightarrow> CharacterState \<Rightarrow> CharacterState" where
  "ProceduralCharacter_update dt s0 =
     (let s1 = s0\<lparr>cs_time := cs_time s0 + dt\<rparr>;
          target_pos = target_position (cs_time s1);
          direction_to_target = vsub target_pos (cs_position s1);
          distance = vnorm direction_to_target;
          s2 = (if distance > 1 / 10
                then s1\<lparr>cs_velocity := vscale (vdiv direction_to_target distance) walk_speed\<rparr>
                else s1\<lparr>cs_velocity := vscale (cs_velocity s1) (9 / 10)\<rparr>);
          s3 = s2\<lparr>cs_position := vadd (cs_position s2) (vscale (cs_velocity s2) dt)\<rparr>;
          s4 = s3\<lparr>cs_ground_speed := vnorm (cs_velocity s3)\<rparr>;
          angle_diff =
            (if cs_ground_speed s4 > 1 / 10
             then normalized_angle_diff
                    (atan2 (snd (cs_velocity s4)) (fst (cs_velocity s4))) (cs_rotation s4)
             else 0);
          s5 = (if cs_ground_speed s4 > 1 / 10
                then s4\<lparr>cs_rotation := cs_rotation s4 + angle_diff * 5 * dt\<rparr>
                else s4);
          yaw_rate = angle_diff / max dt (1 / 1000);
          target_lean = yaw_rate * (3 / 10);
          target_lean' = clip target_lean (- max_lean_angle) max_lean_angle
      in s5\<lparr>cs_lean_angle :=
              cs_lean_angle s5 + (target_lean' - cs_lean_angle s5) * lean_interp_speed * dt\<rparr>)"

inductive pc_reachable :: "CharacterState \<Rightarrow> bool" where
  pc_start: "pc_reachable ProceduralCharacter_init"
| pc_frame: "pc_reachable s \<Longrightarrow> pc_reachable (ProceduralCharacter_update frame_dt s)"

text \<open>
  The same update in two halves, for the proofs: lines 65 to 87 (time, velocity, position,
  ground speed), then lines 89 to 108 (rotation and lean), with the angle difference the
  second half computes as a function of the state the first half leaves.
\<close>

definition pc_move :: "real \<Rightarrow> CharacterState \<Rightarrow> CharacterState" where
  "pc_move dt s0 =
     (let s1 = s0\<lparr>cs_time := cs_time s0 + dt\<rparr>;
          target_pos = target_position (cs_time s1);
          direction_to_target = vsub target_pos (cs_position s1);
          distance = vnorm direction_to_target;
          s2 = (if distance > 1 / 10
                then s1\<lparr>cs_velocity := vscale (vdiv direction_to_target distance) walk_speed\<rparr>
                else s1\<lparr>cs_velocity := vscale (cs_velocity s1) (9 / 10)\<rparr>);
          s3 = s2\<lparr>cs_position := vadd (cs_position s2) (vscale (cs_velocity s2) dt)\<rparr>
      in s3\<lparr>cs_ground_speed := vnorm (cs_velocity s3)\<rparr>)"

definition pc_angle_diff :: "CharacterState \<Rightarrow> real" where
  "pc_angle_diff s4 =
     (if cs_ground_speed s4 > 1 / 10
      then normalized_angle_diff
             (atan2 (snd (cs_velocity s4)) (fst (cs_velocity s4))) (cs_rotation s4)
      else 0)"

definition pc_face :: "real \<Rightarrow> CharacterState \<Rightarrow> CharacterState" where
  "pc_face dt s4 =
     (let angle_diff = pc_angle_diff s4;
          s5 = (if cs_ground_speed s4 > 1 / 10
                then s4\<lparr>cs_rotation := cs_rotation s4 + angle_diff * 5 * dt\<rparr>
                else s4);
          yaw_rate = angle_diff / max dt (1 / 1000);
          target_lean = yaw_rate * (3 / 10);
          target_lean' = clip target_lean (- max_lean_angle) max_lean_angle
      in s5\<lparr>cs_lean_angle :=
              cs_lean_angle s5 + (target_lean' - cs_lean_angle s5) * lean_interp_speed * dt\<rparr>)"

text \<open>
  The yaw rate of the keyboard update (line 93): the rotation after the turn, less the
  \<^verbatim>\<open>last_rotation\<close> the turn left behind, over the guarded step.
\<close>

definition ic_yaw_rate :: "real \<Rightarrow> InteractiveCharacter \<Rightarrow> real" where
  "ic_yaw_rate dt s =
     (if ic_input_turn s \<noteq> 0
      then (ic_rotation s + ic_input_turn s * turn_speed * dt - ic_rotation s) / max dt (1 / 1000)
      else (ic_rotation s - ic_last_rotation s) / max dt (1 / 1000))"

text \<open>
  The lean derivation in the words of the specification, to compare the code with: the
  yaw rate converted to degrees, times a gain, clamped to \<open>\<plusminus>max_lean_angle\<close>, and the
  lean angle moved toward that target by \<open>lean_interp_speed * dt\<close>.
\<close>

definition spec_target_lean :: "real \<Rightarrow> real \<Rightarrow> real" where
  "spec_target_lean gain yaw_rate =
     clip (degrees yaw_rate * gain) (- max_lean_angle) max_lean_angle"

definition spec_lean_update :: "real \<Rightarrow> real \<Rightarrow> real \<Rightarrow> real \<Rightarrow> real" where
  "spec_lean_update gain yaw_rate lean dt =
     lean + (spec_target_lean gain yaw_rate - lean) * lean_interp_speed * dt"

section \<open>Skeleton derivation\<close>

text \<open>The dictionary \<^verbatim>\<open>get_skeleton_points\<close> returns has the same seven keys every time.\<close>

record Pose =
  hip :: vec
  spine_top :: vec
  head :: vec
  left_foot :: vec
  right_foot :: vec
  left_hand :: vec
  right_hand :: vec

text \<open>
  The local function \<^verbatim>\<open>rotate_point\<close>, with the variables it closes over (the position,
  the lean in radians, the cosine and sine of the rotation) as arguments.
\<close>

definition rotate_point :: "real \<Rightarrow> real \<Rightarrow> real \<Rightarrow> real \<Rightarrow> real \<Rightarrow> real \<Rightarrow> real \<Rightarrow> vec" where
  "rotate_point x y lean_rad cos_r sin_r px py =
     (let px_lean = px * cos lean_rad
      in (x + px_lean * cos_r - py * sin_r, y + px_lean * sin_r + py * cos_r))"

text \<open>The walk cycle: the stride time of each variant and the two leg phases.\<close>

definition ic_stride_time :: "InteractiveCharacter \<Rightarrow> real" where
  "ic_stride_time s = ic_time s * max (ic_ground_speed s) (1 / 2) * 2"

definition cs_stride_time :: "CharacterState \<Rightarrow> real" where
  "cs_stride_time c = cs_time c * cs_ground_speed c * 2"

definition left_phase_of :: "real \<Rightarrow> real" where
  "left_phase_of stride_time = sin stride_time"

definition right_phase_of :: "real \<Rightarrow> real" where
  "right_phase_of stride_time = sin (stride_time + pi)"

text \<open>
  \<^verbatim>\<open>InteractiveCharacter.get_skeleton_points\<close>. The method is modelled with the object it
  is called on threaded through: it returns the pose and the object as the call leaves it.
\<close>

definition InteractiveCharacter_get_skeleton_points ::
  "InteractiveCharacter \<Rightarrow> Pose \<times> InteractiveCharacter" where
  "InteractiveCharacter_get_skeleton_points s =
     (let x = fst (ic_position s);
          y = snd (ic_position s);
          rot = ic_rotation s;
          lean_rad = radians (ic_lean_angle s);
          cos_r = cos rot;
          sin_r = sin rot;
          hip_pt = (x, y);
          spine_top_pt = rotate_point x y lean_rad cos_r sin_r 0 (body_height * (6 / 10));
          head_time = ic_time s * head_oscillation_speed;
          head_pitch = sin head_time * radians head_pitch_amplitude;
          head_yaw = cos head_time * radians head_yaw_amplitude;
          head_offset_x = head_size * sin head_yaw;
          head_offset_y = head_size * cos head_pitch;
          head_x = fst spine_top_pt + head_offset_x * cos_r;
          head_y = snd spine_top_pt + head_offset_y + 3 / 10;
          stride_time = ic_stride_time s;
          left_phase = left_phase_of stride_time;
          left_foot_pt = rotate_point x y lean_rad cos_r sin_r
            (- (2 / 10) + left_phase * (3 / 10)) (- leg_length + \<bar>left_phase\<bar> * (2 / 10));
          right_phase = right_phase_of stride_time;
          right_foot_pt = rotate_point x y lean_rad cos_r sin_r
            (2 / 10 + right_phase * (3 / 10)) (- leg_length + \<bar>right_phase\<bar> * (2 / 10));
          left_hand_pt = rotate_point x y lean_rad cos_r sin_r
            (- (4 / 10) - right_phase * (2 / 10))
            (body_height * (3 / 10) - \<bar>right_phase\<bar> * (1 / 10));
          right_hand_pt = rotate_point x y lean_rad cos_r sin_r
            (4 / 10 - left_phase * (2 / 10))
            (body_height * (3 / 10) - \<bar>left_phase\<bar> * (1 / 10))
      in (\<lparr> hip = hip_pt, spine_top = spine_top_pt, head = (head_x, head_y),
             left_foot = left_foot_pt, right_foot = right_foot_pt,
             left_hand = left_hand_pt, right_hand = right_hand_pt \<rparr>, s))"

text \<open>\<^verbatim>\<open>ProceduralCharacter.get_skeleton_points\<close>, modelled the same way.\<close>

definition ProceduralCharacter_get_skeleton_points ::
  "CharacterState \<Rightarrow> Pose \<times> CharacterState" where
  "ProceduralCharacter_get_skeleton_points c =
     (let x = fst (cs_position c);
          y = snd (cs_position c);
          rot = cs_rotation c;
          lean_rad = radians (cs_lean_angle c);
          cos_r = cos rot;
          sin_r = sin rot;
          hip_pt = (x, y);
          spine_top_pt = rotate_point x y lean_rad cos_r sin_r 0 (body_height * (6 / 10));
          head_time = cs_time c * head_oscillation_speed;
          head_pitch = sin head_time * radians head_pitch_amplitude;
          head_yaw = cos head_time * radians head_yaw_amplitude;
          head_offset_x = head_size * sin head_yaw;
          head_offset_y = head_size * cos head_pitch;
          head_x = fst spine_top_pt + head_offset_x * cos_r;
          head_y = snd spine_top_pt + head_offset_y + 3 / 10;
          stride_time = cs_stride_time c;
          left_phase = left_phase_of stride_time;
          left_foot_pt = rotate_point x y lean_rad cos_r sin_r
            (- (2 / 10) + left_phase * (3 / 10)) (- leg_length + \<bar>left_phase\<bar> * (2 / 10));
          right_phase = right_phase_of stride_time;
          right_foot_pt = rotate_point x y lean_rad cos_r sin_r
            (2 / 10 + right_phase * (3 / 10)) (- leg_length + \<bar>right_phase\<bar> * (2 / 10));
          left_hand_pt = rotate_point x y lean_rad cos_r sin_r
            (- (4 / 10) - right_phase * (2 / 10))
            (body_height * (3 / 10) - \<bar>right_phase\<bar> * (1 / 10));
          right_hand_pt = rotate_point x y lean_rad cos_r sin_r
            (4 / 10 - left_phase * (2 / 10))
            (body_height * (3 / 10) - \<bar>left_phase\<bar> * (1 / 10))
      in (\<lparr> hip = hip_pt, spine_top = spine_top_pt, head = (head_x, head_y),
             left_foot = left_foot_pt, right_foot = right_foot_pt,
             left_hand = left_hand_pt, right_hand = right_hand_pt \<rparr>, c))"

text \<open>
  The invariant of a run with the forward key held and no turn: facing along the x axis,
  moving along it, at a speed between 0 and 2.
\<close>

definition forward_inv :: "InteractiveCharacter \<Rightarrow> bool" where
  "forward_inv s \<longleftrightarrow>
     ic_input_forward s = 1 \<and> ic_input_turn s = 0 \<and> ic_rotation s = 0 \<and>
     snd (ic_velocity s) = 0 \<and> 0 \<le> fst (ic_velocity s) \<and> fst (ic_velocity s) \<le> 2"

text \<open>
  A state of the scripted character in mid-walk, at the origin at time 0: moving along the
  x axis at walking speed and facing a hundredth of a radian to the right of it.
\<close>

definition mid_walk :: CharacterState where
  "mid_walk = ProceduralCharacter_init\<lparr>cs_velocity := (2, 0), cs_rotation := - (1 / 100)\<rparr>"

text \<open>Running \<^verbatim>\<open>update\<close> a number of times with the same step.\<close>

definition ic_run :: "real \<Rightarrow> nat \<Rightarrow> InteractiveCharacter \<Rightarrow> InteractiveCharacter" where
  "ic_run dt n s = (InteractiveCharacter_update dt ^^ n) s"

section \<open>Ground speed\<close>

lemma ic_update_ground_speed:
  "ic_ground_speed (InteractiveCharacter_update dt s) =
     vnorm (ic_velocity (InteractiveCharacter_update dt s))"
  by (simp add: InteractiveCharacter_update_def Let_def)

lemma pc_update_ground_speed:
  "cs_ground_speed (ProceduralCharacter_update dt c) =
     vnorm (cs_velocity (ProceduralCharacter_update dt c))"
  by (simp add: ProceduralCharacter_update_def Let_def)

text \<open>
  Claim C1. Whatever the state before and whatever the step, the state \<^verbatim>\<open>update\<close>
  returns has its ground speed equal to the Euclidean norm of its velocity, in the
  keyboard variant and in the scripted one; so has the initial state, and hence every
  state either demo reaches frame by frame, also when key events (the space key's
  zeroing of the velocity among them) were handled before the frame's update.
\<close>

theorem ground_speed_is_velocity_norm:
  "ic_ground_speed (InteractiveCharacter_update dt s) =
     vnorm (ic_velocity (InteractiveCharacter_update dt s))
   \<and> cs_ground_speed (ProceduralCharacter_update dt' c) =
     vnorm (cs_velocity (ProceduralCharacter_update dt' c))
   \<and> (ic_reachable s' \<longrightarrow> ic_ground_speed s' = vnorm (ic_velocity s'))
   \<and> (pc_reachable c' \<longrightarrow> cs_ground_speed c' = vnorm (cs_velocity c'))"
proof (intro conjI impI)
  show "ic_ground_speed (InteractiveCharacter_update dt s) =
          vnorm (ic_velocity (InteractiveCharacter_update dt s))"
    by (rule ic_update_ground_speed)
  show "cs_ground_speed (ProceduralCharacter_update dt' c) =
          vnorm (cs_velocity (ProceduralCharacter_update dt' c))"
    by (rule pc_update_ground_speed)
next
  assume "ic_reachable s'"
  then show "ic_ground_speed s' = vnorm (ic_velocity s')"
    by (cases rule: ic_reachable.cases)
       (simp_all add: InteractiveCharacter_init_def vnorm_def ic_update_ground_speed)
next
  assume "pc_reachable c'"
  then show "cs_ground_speed c' = vnorm (cs_velocity c')"
    by (cases rule: pc_reachable.cases)
       (simp_all add: ProceduralCharacter_init_def vnorm_def pc_update_ground_speed)
qed

theorem ground_speed_is_velocity_norm_witness:
  "ic_reachable (InteractiveCharacter_update frame_dt
       (fold handle_key [Press ''w'', Press '' ''] InteractiveCharacter_init))
   \<and> pc_reachable (ProceduralCharacter_update frame_dt ProceduralCharacter_init)
   \<and> ic_ground_speed (InteractiveCharacter_update frame_dt
       (fold handle_key [Press ''w'', Press '' ''] InteractiveCharacter_init)) =
     vnorm (ic_velocity (InteractiveCharacter_update frame_dt
       (fold handle_key [Press ''w'', Press '' ''] InteractiveCharacter_init)))
   \<and> cs_ground_speed (ProceduralCharacter_update frame_dt ProceduralCharacter_init) =
     vnorm (cs_velocity (ProceduralCharacter_update frame_dt ProceduralCharacter_init))"
  using ground_speed_is_velocity_norm
          [of frame_dt InteractiveCharacter_init frame_dt ProceduralCharacter_init
              "InteractiveCharacter_update frame_dt
                 (fold handle_key [Press ''w'', Press '' ''] InteractiveCharacter_init)"
              "ProceduralCharacter_update frame_dt ProceduralCharacter_init"]
        ic_frame [OF ic_start] pc_frame [OF pc_start]
  by blast

section \<open>Projections of the keyboard update\<close>

lemma vnorm_x_axis: "vnorm (x, 0) = \<bar>x\<bar>"
  by (simp add: vnorm_def)

lemma ic_update_inputs:
  "ic_input_forward (InteractiveCharacter_update dt s) = ic_input_forward s"
  "ic_input_turn (InteractiveCharacter_update dt s) = ic_input_turn s"
  by (simp_all add: InteractiveCharacter_update_def Let_def)

lemma ic_update_rotation_no_turn:
  "ic_input_turn s = 0 \<Longrightarrow> ic_rotation (InteractiveCharacter_update dt s) = ic_rotation s"
  by (simp add: InteractiveCharacter_update_def Let_def)

lemma ic_update_last_rotation:
  "ic_last_rotation (InteractiveCharacter_update dt s) =
     ic_rotation (InteractiveCharacter_update dt s)"
  by (simp add: InteractiveCharacter_update_def Let_def)

lemma ic_update_lean_no_turn:
  "ic_input_turn s = 0 \<Longrightarrow> ic_last_rotation s = ic_rotation s \<Longrightarrow>
   ic_lean_angle (InteractiveCharacter_update dt s) =
     ic_lean_angle s + (0 - ic_lean_angle s) * lean_interp_speed * dt"
  by (simp add: InteractiveCharacter_update_def Let_def degrees_def clip_def max_lean_angle_def)

lemma ic_update_velocity_no_turn:
  "ic_input_turn s = 0 \<Longrightarrow>
   ic_velocity (InteractiveCharacter_update dt s) =
     (let target_velocity = (ic_input_forward s * cos (ic_rotation s) * max_speed,
                             ic_input_forward s * sin (ic_rotation s) * max_speed);
          velocity_diff = vsub target_velocity (ic_velocity s)
      in vscale (if vnorm velocity_diff > 1 / 1000
                 then vadd (ic_velocity s)
                        (vscale (vdiv velocity_diff (vnorm velocity_diff))
                           (min (acceleration * dt) (vnorm velocity_diff)))
                 else ic_velocity s) friction)"
  by (simp add: InteractiveCharacter_update_def Let_def)

lemma ic_update_position:
  "ic_position (InteractiveCharacter_update dt s) =
     vadd (ic_position s) (vscale (ic_velocity (InteractiveCharacter_update dt s)) dt)"
  by (simp add: InteractiveCharacter_update_def Let_def)

section \<open>Lean angle\<close>

lemma clip_bounds: "lo \<le> hi \<Longrightarrow> lo \<le> clip x lo hi \<and> clip x lo hi \<le> hi"
  by (simp add: clip_def)

lemma ic_update_lean_shape:
  "\<exists>a. ic_lean_angle (InteractiveCharacter_update dt s) =
     ic_lean_angle s +
     (clip a (- max_lean_angle) max_lean_angle - ic_lean_angle s) * lean_interp_speed * dt"
  by (simp add: InteractiveCharacter_update_def Let_def) blast

lemma pc_update_lean_shape:
  "\<exists>a. cs_lean_angle (ProceduralCharacter_update dt c) =
     cs_lean_angle c +
     (clip a (- max_lean_angle) max_lean_angle - cs_lean_angle c) * lean_interp_speed * dt"
  by (simp add: ProceduralCharacter_update_def Let_def) blast

lemma lean_step_bound:
  assumes "\<bar>l\<bar> \<le> max_lean_angle"
  shows "\<bar>l + (clip a (- max_lean_angle) max_lean_angle - l) * lean_interp_speed * frame_dt\<bar>
           \<le> max_lean_angle"
proof -
  define t where "t = clip a (- max_lean_angle) max_lean_angle"
  have "- max_lean_angle \<le> t \<and> t \<le> max_lean_angle"
    unfolding t_def by (rule clip_bounds) (simp add: max_lean_angle_def)
  then have b: "- 20 \<le> t" "t \<le> 20" by (simp_all add: max_lean_angle_def)
  have l: "- 20 \<le> l" "l \<le> 20" using assms by (simp_all add: max_lean_angle_def abs_le_iff)
  have e: "l + (t - l) * 6 * (1 / 30) = (4 * l + t) / 5" by (simp add: field_simps)
  have "\<bar>l + (t - l) * 6 * (1 / 30)\<bar> \<le> 20"
    unfolding e using b l by (simp add: abs_le_iff field_simps)
  then show ?thesis
    by (simp add: t_def lean_interp_speed_def frame_dt_def max_lean_angle_def)
qed

lemma ic_lean_step:
  "\<bar>ic_lean_angle s\<bar> \<le> max_lean_angle \<Longrightarrow>
   \<bar>ic_lean_angle (InteractiveCharacter_update frame_dt s)\<bar> \<le> max_lean_angle"
  using ic_update_lean_shape [of frame_dt s] lean_step_bound [of "ic_lean_angle s"] by auto

lemma pc_lean_step:
  "\<bar>cs_lean_angle c\<bar> \<le> max_lean_angle \<Longrightarrow>
   \<bar>cs_lean_angle (ProceduralCharacter_update frame_dt c)\<bar> \<le> max_lean_angle"
  using pc_update_lean_shape [of frame_dt c] lean_step_bound [of "cs_lean_angle c"] by auto

lemma handle_key_lean: "ic_lean_angle (handle_key ev s) = ic_lean_angle s"
  by (cases ev) (simp_all add: on_key_press_def on_key_release_def)

lemma fold_handle_key_lean: "ic_lean_angle (fold handle_key evs s) = ic_lean_angle s"
  by (induction evs arbitrary: s) (simp_all add: handle_key_lean)

lemma ic_reachable_lean: "ic_reachable s \<Longrightarrow> \<bar>ic_lean_angle s\<bar> \<le> max_lean_angle"
proof (induction rule: ic_reachable.induct)
  case ic_start
  show ?case by (simp add: InteractiveCharacter_init_def max_lean_angle_def)
next
  case (ic_frame s evs)
  then have "\<bar>ic_lean_angle (fold handle_key evs s)\<bar> \<le> max_lean_angle"
    by (simp add: fold_handle_key_lean)
  then show ?case by (rule ic_lean_step)
qed

lemma pc_reachable_lean: "pc_reachable c \<Longrightarrow> \<bar>cs_lean_angle c\<bar> \<le> max_lean_angle"
proof (induction rule: pc_reachable.induct)
  case pc_start
  show ?case by (simp add: ProceduralCharacter_init_def max_lean_angle_def)
next
  case (pc_frame c)
  then show ?case by (simp add: pc_lean_step)
qed

text \<open>
  Claim C3. With the fixed step of 1/30 s, one update keeps the lean angle within
  \<open>\<plusminus>max_lean_angle\<close> (20 degrees) from any state where it already is, whatever the
  inputs and the other fields, in both variants; the lean angle starts at 0, so it is
  within that range in every state either demo reaches.
\<close>

theorem lean_angle_stays_in_range:
  "(\<bar>ic_lean_angle s\<bar> \<le> max_lean_angle \<longrightarrow>
      \<bar>ic_lean_angle (InteractiveCharacter_update frame_dt s)\<bar> \<le> max_lean_angle)
   \<and> (\<bar>cs_lean_angle c\<bar> \<le> max_lean_angle \<longrightarrow>
      \<bar>cs_lean_angle (ProceduralCharacter_update frame_dt c)\<bar> \<le> max_lean_angle)
   \<and> (ic_reachable s' \<longrightarrow> \<bar>ic_lean_angle s'\<bar> \<le> 20)
   \<and> (pc_reachable c' \<longrightarrow> \<bar>cs_lean_angle c'\<bar> \<le> 20)"
  using ic_lean_step [of s] pc_lean_step [of c] ic_reachable_lean [of s'] pc_reachable_lean [of c']
  by (simp add: max_lean_angle_def)

theorem lean_angle_stays_in_range_witness:
  "\<bar>ic_lean_angle (InteractiveCharacter_init\<lparr>ic_input_turn := 1, ic_lean_angle := 20\<rparr>)\<bar>
      \<le> max_lean_angle
   \<and> \<bar>ic_lean_angle (InteractiveCharacter_update frame_dt
          (InteractiveCharacter_init\<lparr>ic_input_turn := 1, ic_lean_angle := 20\<rparr>))\<bar>
      \<le> max_lean_angle
   \<and> \<bar>cs_lean_angle (ProceduralCharacter_init\<lparr>cs_lean_angle := - 20\<rparr>)\<bar> \<le> max_lean_angle
   \<and> \<bar>cs_lean_angle (ProceduralCharacter_update frame_dt
          (ProceduralCharacter_init\<lparr>cs_lean_angle := - 20\<rparr>))\<bar> \<le> max_lean_angle
   \<and> ic_reachable (InteractiveCharacter_update frame_dt
          (fold handle_key [Press ''a''] InteractiveCharacter_init))
   \<and> \<bar>ic_lean_angle (InteractiveCharacter_update frame_dt
          (fold handle_key [Press ''a''] InteractiveCharacter_init))\<bar> \<le> 20
   \<and> pc_reachable (ProceduralCharacter_update frame_dt ProceduralCharacter_init)
   \<and> \<bar>cs_lean_angle (ProceduralCharacter_update frame_dt ProceduralCharacter_init)\<bar> \<le> 20"
  using lean_angle_stays_in_range
          [of "InteractiveCharacter_init\<lparr>ic_input_turn := 1, ic_lean_angle := 20\<rparr>"
              "ProceduralCharacter_init\<lparr>cs_lean_angle := - 20\<rparr>"
              "InteractiveCharacter_update frame_dt
                 (fold handle_key [Press ''a''] InteractiveCharacter_init)"
              "ProceduralCharacter_update frame_dt ProceduralCharacter_init"]
        ic_frame [OF ic_start, of "[Press ''a'']"] pc_frame [OF pc_start]
  by (simp add: max_lean_angle_def)

section \<open>Holding forward from rest\<close>

lemma forward_step:
  assumes "forward_inv s"
  shows "forward_inv (InteractiveCharacter_update frame_dt s)"
proof -
  obtain v where v: "ic_velocity s = (v, 0)" "0 \<le> v" "v \<le> 2"
    using assms by (cases "ic_velocity s") (auto simp: forward_inv_def)
  have t: "ic_input_turn s = 0" and f: "ic_input_forward s = 1" and r: "ic_rotation s = 0"
    using assms by (simp_all add: forward_inv_def)
  have n: "vnorm (3 - v, 0) = 3 - v" using v by (simp add: vnorm_x_axis)
  have "ic_velocity (InteractiveCharacter_update frame_dt s) = ((v + 4 / 15) * (85 / 100), 0)"
    using v n
    by (simp add: ic_update_velocity_no_turn [OF t] f r Let_def vsub_def vadd_def vscale_def
          vdiv_def max_speed_def acceleration_def friction_def frame_dt_def min_def)
  then show ?thesis
    using v by (simp add: forward_inv_def ic_update_inputs f t ic_update_rotation_no_turn r)
qed

lemma forward_run: "forward_inv s \<Longrightarrow> forward_inv (ic_run frame_dt n s)"
  by (induction n) (simp_all add: ic_run_def forward_step)

text \<open>
  Claim C5. Keyboard variant, from the initial state (at rest) with the forward input
  held at 1 and no turn input, stepping by 1/30 s with \<open>max_speed = 3\<close>,
  \<open>acceleration = 8\<close> and \<open>friction = 0.85\<close>: after any number \<open>n\<close> of updates, hence
  after each of the 30 updates of the first second, the norm of the velocity is
  strictly below \<open>max_speed\<close>.
\<close>

theorem forward_speed_below_max:
  "vnorm (ic_velocity (ic_run frame_dt n (InteractiveCharacter_init\<lparr>ic_input_forward := 1\<rparr>)))
     < max_speed"
proof -
  let ?s = "ic_run frame_dt n (InteractiveCharacter_init\<lparr>ic_input_forward := 1\<rparr>)"
  have "forward_inv (InteractiveCharacter_init\<lparr>ic_input_forward := 1\<rparr>)"
    by (simp add: forward_inv_def InteractiveCharacter_init_def)
  then have "forward_inv ?s" by (rule forward_run)
  then obtain v where "ic_velocity ?s = (v, 0)" "0 \<le> v" "v \<le> 2"
    by (cases "ic_velocity ?s") (auto simp: forward_inv_def)
  then show ?thesis by (simp add: vnorm_x_axis max_speed_def)
qed

section \<open>A frame without turn input\<close>

text \<open>
  Claim C10, as stated, promises that the lean angle only decays toward zero for every
  positive step. It does not for a long step: with a step of 1 s, a lean of 1 degree
  becomes -5 degrees, five times as far from zero.
\<close>

theorem no_turn_lean_decay_counterexample:
  "(0::real) < 1
   \<and> ic_input_turn (InteractiveCharacter_init\<lparr>ic_lean_angle := 1\<rparr>) = 0
   \<and> ic_last_rotation (InteractiveCharacter_init\<lparr>ic_lean_angle := 1\<rparr>) =
       ic_rotation (InteractiveCharacter_init\<lparr>ic_lean_angle := 1\<rparr>)
   \<and> ic_lean_angle (InteractiveCharacter_update 1 (InteractiveCharacter_init\<lparr>ic_lean_angle := 1\<rparr>))
       = - 5
   \<and> \<not> \<bar>ic_lean_angle (InteractiveCharacter_update 1
            (InteractiveCharacter_init\<lparr>ic_lean_angle := 1\<rparr>))\<bar>
        \<le> \<bar>ic_lean_angle (InteractiveCharacter_init\<lparr>ic_lean_angle := 1\<rparr>)\<bar>"
  by (simp add: InteractiveCharacter_update_def Let_def InteractiveCharacter_init_def
        degrees_def clip_def max_lean_angle_def lean_interp_speed_def)

lemma ic_update_time: "ic_time (InteractiveCharacter_update dt s) = ic_time s + dt"
  by (simp add: InteractiveCharacter_update_def Let_def)

lemma ic_update_no_turn_state:
  assumes "ic_input_turn s = 0" and "ic_last_rotation s = ic_rotation s"
  shows "InteractiveCharacter_update dt s =
     s\<lparr>ic_time := ic_time s + dt,
       ic_velocity := ic_velocity (InteractiveCharacter_update dt s),
       ic_position :=
         vadd (ic_position s) (vscale (ic_velocity (InteractiveCharacter_update dt s)) dt),
       ic_ground_speed := vnorm (ic_velocity (InteractiveCharacter_update dt s)),
       ic_lean_angle := ic_lean_angle s + (0 - ic_lean_angle s) * lean_interp_speed * dt\<rparr>"
    (is "?u = ?t")
proof (rule InteractiveCharacter.equality)
  show "ic_last_rotation ?u = ic_last_rotation ?t"
    using assms by (simp add: ic_update_last_rotation ic_update_rotation_no_turn)
  show "InteractiveCharacter.more ?u = InteractiveCharacter.more ?t"
    by (simp add: InteractiveCharacter_update_def Let_def)
qed (simp_all add: assms ic_update_time ic_update_inputs ic_update_rotation_no_turn
       ic_update_position ic_update_ground_speed ic_update_lean_no_turn)

text \<open>
  Claim C10, amended. Keyboard variant, any step \<open>dt > 0\<close>, any state whose
  \<open>last_rotation\<close> equals its \<open>rotation\<close>, no turn input: the update leaves \<open>rotation\<close>
  and \<open>last_rotation\<close> as they were and the lean target is zero, so the lean angle
  becomes \<open>lean_angle + (0 - lean_angle) * lean_interp_speed * dt\<close>, that is
  \<open>lean_angle * (1 - 6 * dt)\<close>. When \<open>dt < 1/3\<close> (the demo's 1/30 is) this is no farther
  from zero than before, and strictly nearer when the lean angle is not zero. The turning
  logic touches no other field: both inputs are as they were, and the time, the velocity,
  the position and the ground speed are what the movement statements alone compute from
  the time, the forward input, the rotation, the velocity and the position before, so the
  state after is the state before with exactly these four fields and the lean angle
  rewritten.
\<close>

theorem no_turn_input_frame:
  assumes "0 < dt" and "ic_input_turn s = 0" and "ic_last_rotation s = ic_rotation s"
  shows "ic_rotation (InteractiveCharacter_update dt s) = ic_rotation s
   \<and> ic_last_rotation (InteractiveCharacter_update dt s) = ic_last_rotation s
   \<and> ic_lean_angle (InteractiveCharacter_update dt s) =
       ic_lean_angle s + (0 - ic_lean_angle s) * lean_interp_speed * dt
   \<and> ic_lean_angle (InteractiveCharacter_update dt s) = ic_lean_angle s * (1 - 6 * dt)
   \<and> (dt < 1 / 3 \<longrightarrow>
        \<bar>ic_lean_angle (InteractiveCharacter_update dt s)\<bar> \<le> \<bar>ic_lean_angle s\<bar>
        \<and> (ic_lean_angle s \<noteq> 0 \<longrightarrow>
             \<bar>ic_lean_angle (InteractiveCharacter_update dt s)\<bar> < \<bar>ic_lean_angle s\<bar>))
   \<and> ic_input_forward (InteractiveCharacter_update dt s) = ic_input_forward s
   \<and> ic_input_turn (InteractiveCharacter_update dt s) = ic_input_turn s
   \<and> ic_time (InteractiveCharacter_update dt s) = ic_time s + dt
   \<and> ic_velocity (InteractiveCharacter_update dt s) =
       (let target_velocity = (ic_input_forward s * cos (ic_rotation s) * max_speed,
                               ic_input_forward s * sin (ic_rotation s) * max_speed);
            velocity_diff = vsub target_velocity (ic_velocity s)
        in vscale (if vnorm velocity_diff > 1 / 1000
                   then vadd (ic_velocity s)
                          (vscale (vdiv velocity_diff (vnorm velocity_diff))
                             (min (acceleration * dt) (vnorm velocity_diff)))
                   else ic_velocity s) friction)
   \<and> ic_position (InteractiveCharacter_update dt s) =
       vadd (ic_position s) (vscale (ic_velocity (InteractiveCharacter_update dt s)) dt)
   \<and> ic_ground_speed (InteractiveCharacter_update dt s) =
       vnorm (ic_velocity (InteractiveCharacter_update dt s))
   \<and> InteractiveCharacter_update dt s =
       (let target_velocity = (ic_input_forward s * cos (ic_rotation s) * max_speed,
                               ic_input_forward s * sin (ic_rotation s) * max_speed);
            velocity_diff = vsub target_velocity (ic_velocity s);
            v = vscale (if vnorm velocity_diff > 1 / 1000
                        then vadd (ic_velocity s)
                               (vscale (vdiv velocity_diff (vnorm velocity_diff))
                                  (min (acceleration * dt) (vnorm velocity_diff)))
                        else ic_velocity s) friction
        in s\<lparr>ic_time := ic_time s + dt,
             ic_velocity := v,
             ic_position := vadd (ic_position s) (vscale v dt),
             ic_ground_speed := vnorm v,
             ic_lean_angle := ic_lean_angle s * (1 - 6 * dt)\<rparr>)"
proof -
  have r: "ic_rotation (InteractiveCharacter_update dt s) = ic_rotation s"
    using assms(2) by (rule ic_update_rotation_no_turn)
  have lr: "ic_last_rotation (InteractiveCharacter_update dt s) = ic_last_rotation s"
    using r assms(3) by (simp add: ic_update_last_rotation)
  have l: "ic_lean_angle (InteractiveCharacter_update dt s) =
             ic_lean_angle s + (0 - ic_lean_angle s) * lean_interp_speed * dt"
    using assms(2,3) by (rule ic_update_lean_no_turn)
  have l0: "ic_lean_angle s + (0 - ic_lean_angle s) * lean_interp_speed * dt =
              ic_lean_angle s * (1 - 6 * dt)"
    by (simp add: lean_interp_speed_def algebra_simps)
  have l': "ic_lean_angle (InteractiveCharacter_update dt s) = ic_lean_angle s * (1 - 6 * dt)"
    unfolding l by (rule l0)
  have d: "\<bar>ic_lean_angle (InteractiveCharacter_update dt s)\<bar> \<le> \<bar>ic_lean_angle s\<bar>
           \<and> (ic_lean_angle s \<noteq> 0 \<longrightarrow>
                \<bar>ic_lean_angle (InteractiveCharacter_update dt s)\<bar> < \<bar>ic_lean_angle s\<bar>)"
    if "dt < 1 / 3"
  proof -
    have k: "\<bar>1 - 6 * dt\<bar> < 1" using assms(1) that by (simp add: abs_less_iff)
    have m: "\<bar>ic_lean_angle (InteractiveCharacter_update dt s)\<bar> =
               \<bar>ic_lean_angle s\<bar> * \<bar>1 - 6 * dt\<bar>"
      unfolding l' by (simp add: abs_mult)
    have "\<bar>ic_lean_angle s\<bar> * \<bar>1 - 6 * dt\<bar> \<le> \<bar>ic_lean_angle s\<bar> * 1"
      using k by (intro mult_left_mono) simp_all
    moreover have "\<bar>ic_lean_angle s\<bar> * \<bar>1 - 6 * dt\<bar> < \<bar>ic_lean_angle s\<bar> * 1"
      if "ic_lean_angle s \<noteq> 0"
      using k that by (intro mult_strict_left_mono) simp_all
    ultimately show ?thesis unfolding m by simp
  qed
  have i: "ic_input_forward (InteractiveCharacter_update dt s) = ic_input_forward s"
          "ic_input_turn (InteractiveCharacter_update dt s) = ic_input_turn s"
    by (rule ic_update_inputs)+
  have t: "ic_time (InteractiveCharacter_update dt s) = ic_time s + dt"
    by (rule ic_update_time)
  have v: "ic_velocity (InteractiveCharacter_update dt s) =
       (let target_velocity = (ic_input_forward s * cos (ic_rotation s) * max_speed,
                               ic_input_forward s * sin (ic_rotation s) * max_speed);
            velocity_diff = vsub target_velocity (ic_velocity s)
        in vscale (if vnorm velocity_diff > 1 / 1000
                   then vadd (ic_velocity s)
                          (vscale (vdiv velocity_diff (vnorm velocity_diff))
                             (min (acceleration * dt) (vnorm velocity_diff)))
                   else ic_velocity s) friction)"
    using assms(2) by (rule ic_update_velocity_no_turn)
  have p: "ic_position (InteractiveCharacter_update dt s) =
             vadd (ic_position s) (vscale (ic_velocity (InteractiveCharacter_update dt s)) dt)"
    by (rule ic_update_position)
  have g: "ic_ground_speed (InteractiveCharacter_update dt s) =
             vnorm (ic_velocity (InteractiveCharacter_update dt s))"
    by (rule ic_update_ground_speed)
  have w: "InteractiveCharacter_update dt s =
       (let target_velocity = (ic_input_forward s * cos (ic_rotation s) * max_speed,
                               ic_input_forward s * sin (ic_rotation s) * max_speed);
            velocity_diff = vsub target_velocity (ic_velocity s);
            v = vscale (if vnorm velocity_diff > 1 / 1000
                        then vadd (ic_velocity s)
                               (vscale (vdiv velocity_diff (vnorm velocity_diff))
                                  (min (acceleration * dt) (vnorm velocity_diff)))
                        else ic_velocity s) friction
        in s\<lparr>ic_time := ic_time s + dt,
             ic_velocity := v,
             ic_position := vadd (ic_position s) (vscale v dt),
             ic_ground_speed := vnorm v,
             ic_lean_angle := ic_lean_angle s * (1 - 6 * dt)\<rparr>)"
    by (subst ic_update_no_turn_state [OF assms(2,3)], unfold v l0 Let_def) (rule refl)
  show ?thesis
    using r lr l l' d i t v p g w by blast
qed

theorem no_turn_input_frame_witness:
  "(0::real) < 1 / 30
   \<and> ic_input_turn (InteractiveCharacter_init\<lparr>ic_lean_angle := 10\<rparr>) = 0
   \<and> ic_last_rotation (InteractiveCharacter_init\<lparr>ic_lean_angle := 10\<rparr>) =
       ic_rotation (InteractiveCharacter_init\<lparr>ic_lean_angle := 10\<rparr>)
   \<and> (1 / 30 :: real) < 1 / 3
   \<and> ic_lean_angle (InteractiveCharacter_init\<lparr>ic_lean_angle := 10\<rparr>) \<noteq> 0
   \<and> ic_rotation (InteractiveCharacter_update (1 / 30)
        (InteractiveCharacter_init\<lparr>ic_lean_angle := 10\<rparr>)) = 0
   \<and> ic_lean_angle (InteractiveCharacter_update (1 / 30)
        (InteractiveCharacter_init\<lparr>ic_lean_angle := 10\<rparr>)) = 8
   \<and> \<bar>ic_lean_angle (InteractiveCharacter_update (1 / 30)
        (InteractiveCharacter_init\<lparr>ic_lean_angle := 10\<rparr>))\<bar> < 10
   \<and> ic_time (InteractiveCharacter_update (1 / 30)
        (InteractiveCharacter_init\<lparr>ic_lean_angle := 10\<rparr>)) = 1 / 30"
proof -
  let ?s = "InteractiveCharacter_init\<lparr>ic_lean_angle := 10\<rparr>"
  have h: "(0::real) < 1 / 30" "ic_input_turn ?s = 0" "ic_last_rotation ?s = ic_rotation ?s"
    by (simp_all add: InteractiveCharacter_init_def)
  have f: "ic_rotation ?s = 0" "ic_lean_angle ?s = 10" "ic_time ?s = 0"
    by (simp_all add: InteractiveCharacter_init_def)
  note n = no_turn_input_frame [OF h]
  have a: "ic_rotation (InteractiveCharacter_update (1 / 30) ?s) = 0"
    using n [THEN conjunct1] f by simp
  have b: "ic_lean_angle (InteractiveCharacter_update (1 / 30) ?s) = 8"
    using n [THEN conjunct2, THEN conjunct2, THEN conjunct2, THEN conjunct1] f by simp
  have c: "\<bar>ic_lean_angle (InteractiveCharacter_update (1 / 30) ?s)\<bar> < 10"
    unfolding b by simp
  have e: "ic_time (InteractiveCharacter_update (1 / 30) ?s) = 1 / 30"
    using n [THEN conjunct2, THEN conjunct2, THEN conjunct2, THEN conjunct2, THEN conjunct2,
             THEN conjunct2, THEN conjunct2, THEN conjunct1] f by simp
  show ?thesis using h f a b c e by simp
qed

section \<open>Releasing every key\<close>

lemma vnorm_nonneg: "0 \<le> vnorm v"
  by (simp add: vnorm_def)

lemma vnorm_vscale: "vnorm (vscale v k) = \<bar>k\<bar> * vnorm v"
proof -
  have "fst v * k * (fst v * k) + snd v * k * (snd v * k) = k\<^sup>2 * (fst v * fst v + snd v * snd v)"
    by (simp add: power2_eq_square algebra_simps)
  then show ?thesis
    by (simp add: vnorm_def vscale_def real_sqrt_mult)
qed

lemma vnorm_neg: "vnorm (vsub (0, 0) v) = vnorm v"
  by (simp add: vnorm_def vsub_def)

lemma zero_input_velocity:
  assumes "0 < dt" and "ic_input_forward s = 0" and "ic_input_turn s = 0"
  shows "\<exists>k. 0 \<le> k \<and> k \<le> friction \<and>
           ic_velocity (InteractiveCharacter_update dt s) = vscale (ic_velocity s) k"
proof -
  define v where "v = ic_velocity s"
  define r where "r = vnorm v"
  have u: "ic_velocity (InteractiveCharacter_update dt s) =
        vscale (if r > 1 / 1000
                then vadd v (vscale (vdiv (vsub (0, 0) v) r) (min (acceleration * dt) r))
                else v) friction"
    by (simp add: ic_update_velocity_no_turn [OF assms(3)] assms(2) Let_def vnorm_neg v_def r_def)
  show ?thesis
  proof (cases "r > 1 / 1000")
    case True
    define m where "m = min (acceleration * dt) r"
    have m: "0 \<le> m" "m \<le> r" using assms(1) True by (simp_all add: m_def acceleration_def)
    have rp: "0 < r" using True by simp
    define c where "c = 1 - m / r"
    have q: "0 \<le> c" "c \<le> 1" using m rp by (simp_all add: c_def)
    have "vadd v (vscale (vdiv (vsub (0, 0) v) r) m) = vscale v (1 - m / r)"
      by (simp add: vadd_def vscale_def vdiv_def vsub_def algebra_simps)
    then have "ic_velocity (InteractiveCharacter_update dt s) = vscale v (c * friction)"
      using True by (simp add: u m_def vscale_def c_def)
    moreover have "0 \<le> c * friction" using q by (simp add: friction_def)
    moreover have "c * friction \<le> friction"
      using q by (simp add: friction_def)
    ultimately show ?thesis unfolding v_def by blast
  next
    case False
    then have "ic_velocity (InteractiveCharacter_update dt s) = vscale v friction"
      by (simp add: u)
    moreover have "(0::real) \<le> friction" by (simp add: friction_def)
    ultimately show ?thesis unfolding v_def by blast
  qed
qed

lemma zero_input_run_inputs:
  "ic_input_forward (ic_run dt n s) = ic_input_forward s \<and> ic_input_turn (ic_run dt n s) = ic_input_turn s"
  by (induction n) (simp_all add: ic_run_def ic_update_inputs)

lemma zero_input_run_step:
  assumes "0 < dt" and "ic_input_forward s = 0" and "ic_input_turn s = 0"
  shows "\<exists>k. 0 \<le> k \<and> k \<le> friction \<and>
           ic_velocity (ic_run dt (Suc n) s) = vscale (ic_velocity (ic_run dt n s)) k"
proof -
  have "ic_run dt (Suc n) s = InteractiveCharacter_update dt (ic_run dt n s)"
    by (simp add: ic_run_def)
  then show ?thesis
    using zero_input_velocity [of dt "ic_run dt n s"] assms zero_input_run_inputs [of dt n s]
    by simp
qed

lemma zero_input_speed_step:
  assumes "0 < dt" and "ic_input_forward s = 0" and "ic_input_turn s = 0"
  shows "vnorm (ic_velocity (ic_run dt (Suc n) s)) \<le> friction * vnorm (ic_velocity (ic_run dt n s))"
proof -
  obtain k where k: "0 \<le> k" "k \<le> friction"
      "ic_velocity (ic_run dt (Suc n) s) = vscale (ic_velocity (ic_run dt n s)) k"
    using zero_input_run_step [OF assms] by blast
  show ?thesis
    unfolding k(3) vnorm_vscale using k(1,2) vnorm_nonneg [of "ic_velocity (ic_run dt n s)"]
    by (simp add: mult_right_mono)
qed

lemma zero_input_speed_geometric:
  assumes "0 < dt" and "ic_input_forward s = 0" and "ic_input_turn s = 0"
  shows "vnorm (ic_velocity (ic_run dt n s)) \<le> friction ^ n * vnorm (ic_velocity s)"
proof (induction n)
  case 0
  show ?case by (simp add: ic_run_def)
next
  case (Suc n)
  have "vnorm (ic_velocity (ic_run dt (Suc n) s)) \<le> friction * vnorm (ic_velocity (ic_run dt n s))"
    by (rule zero_input_speed_step [OF assms])
  also have "\<dots> \<le> friction * (friction ^ n * vnorm (ic_velocity s))"
    using Suc by (intro mult_left_mono) (simp_all add: friction_def)
  finally show ?case by (simp add: mult.assoc)
qed

lemma abs_fst_le_vnorm: "\<bar>fst v\<bar> \<le> vnorm v"
  unfolding vnorm_def by (rule real_le_rsqrt) (simp add: power2_eq_square)

lemma abs_snd_le_vnorm: "\<bar>snd v\<bar> \<le> vnorm v"
  unfolding vnorm_def by (rule real_le_rsqrt) (simp add: power2_eq_square)

lemma zero_input_speed_tendsto:
  assumes "0 < dt" and "ic_input_forward s = 0" and "ic_input_turn s = 0"
  shows "(\<lambda>n. vnorm (ic_velocity (ic_run dt n s))) \<longlonglongrightarrow> 0"
proof (rule tendsto_sandwich [where f = "\<lambda>n. 0" and h = "\<lambda>n. friction ^ n * vnorm (ic_velocity s)"])
  show "\<forall>\<^sub>F n in sequentially. 0 \<le> vnorm (ic_velocity (ic_run dt n s))"
    by (simp add: vnorm_nonneg)
  show "\<forall>\<^sub>F n in sequentially. vnorm (ic_velocity (ic_run dt n s)) \<le> friction ^ n * vnorm (ic_velocity s)"
    using zero_input_speed_geometric [OF assms] by simp
  show "(\<lambda>n. 0::real) \<longlonglongrightarrow> 0" by simp
  have "(\<lambda>n. friction ^ n) \<longlonglongrightarrow> 0"
    by (rule LIMSEQ_realpow_zero) (simp_all add: friction_def)
  then have "(\<lambda>n. friction ^ n * vnorm (ic_velocity s)) \<longlonglongrightarrow> 0 * vnorm (ic_velocity s)"
    by (rule tendsto_mult_right)
  then show "(\<lambda>n. friction ^ n * vnorm (ic_velocity s)) \<longlonglongrightarrow> 0" by simp
qed

lemma coordinate_series_convergent:
  fixes p :: "nat \<Rightarrow> real" and w :: "nat \<Rightarrow> real"
  assumes step: "\<And>n. p (Suc n) = p n + w (Suc n) * dt"
    and bound: "\<And>n. \<bar>w n\<bar> \<le> friction ^ n * b"
  shows "convergent p"
proof -
  define f where "f n = w (Suc n) * dt" for n
  have "summable (\<lambda>n. friction ^ n)"
    by (rule summable_geometric) (simp add: friction_def)
  then have g: "summable (\<lambda>n. (friction * b * \<bar>dt\<bar>) * friction ^ n)"
    by (rule summable_mult)
  have fb: "norm (f n) \<le> (friction * b * \<bar>dt\<bar>) * friction ^ n" for n
  proof -
    have "\<bar>w (Suc n) * dt\<bar> = \<bar>w (Suc n)\<bar> * \<bar>dt\<bar>" by (simp add: abs_mult)
    also have "\<dots> \<le> (friction ^ Suc n * b) * \<bar>dt\<bar>"
      by (intro mult_right_mono bound) simp
    finally show ?thesis by (simp add: f_def mult_ac)
  qed
  have "summable f"
    using g
  proof (rule summable_comparison_test')
    fix n :: nat
    show "norm (f n) \<le> (friction * b * \<bar>dt\<bar>) * friction ^ n" by (rule fb)
  qed
  then have "(\<lambda>n. \<Sum>i<n. f i) \<longlonglongrightarrow> suminf f" by (rule summable_LIMSEQ)
  then have "(\<lambda>n. p 0 + (\<Sum>i<n. f i)) \<longlonglongrightarrow> p 0 + suminf f"
    by (intro tendsto_add tendsto_const)
  moreover have "p 0 + (\<Sum>i<n. f i) = p n" for n
    by (induction n) (simp_all add: step f_def)
  ultimately have "p \<longlonglongrightarrow> p 0 + suminf f" by (simp only:)
  then show ?thesis by (auto simp: convergent_def)
qed

lemma zero_input_position_convergent:
  assumes "0 < dt" and "ic_input_forward s = 0" and "ic_input_turn s = 0"
  shows "convergent (\<lambda>n. ic_position (ic_run dt n s))"
proof -
  have b1: "\<bar>fst (ic_velocity (ic_run dt n s))\<bar> \<le> friction ^ n * vnorm (ic_velocity s)" for n
    using abs_fst_le_vnorm [of "ic_velocity (ic_run dt n s)"] zero_input_speed_geometric [OF assms, of n]
    by linarith
  have b2: "\<bar>snd (ic_velocity (ic_run dt n s))\<bar> \<le> friction ^ n * vnorm (ic_velocity s)" for n
    using abs_snd_le_vnorm [of "ic_velocity (ic_run dt n s)"] zero_input_speed_geometric [OF assms, of n]
    by linarith
  have p: "ic_position (ic_run dt (Suc n) s) =
             vadd (ic_position (ic_run dt n s)) (vscale (ic_velocity (ic_run dt (Suc n) s)) dt)" for n
    by (simp add: ic_run_def ic_update_position)
  have "convergent (\<lambda>n. fst (ic_position (ic_run dt n s)))"
    by (rule coordinate_series_convergent [where w = "\<lambda>n. fst (ic_velocity (ic_run dt n s))" and dt = dt, OF _ b1])
       (simp add: p vadd_def vscale_def)
  then obtain a where a: "(\<lambda>n. fst (ic_position (ic_run dt n s))) \<longlonglongrightarrow> a"
    by (auto simp: convergent_def)
  have "convergent (\<lambda>n. snd (ic_position (ic_run dt n s)))"
    by (rule coordinate_series_convergent [where w = "\<lambda>n. snd (ic_velocity (ic_run dt n s))" and dt = dt, OF _ b2])
       (simp add: p vadd_def vscale_def)
  then obtain b where b: "(\<lambda>n. snd (ic_position (ic_run dt n s))) \<longlonglongrightarrow> b"
    by (auto simp: convergent_def)
  have "(\<lambda>n. (fst (ic_position (ic_run dt n s)), snd (ic_position (ic_run dt n s)))) \<longlonglongrightarrow> (a, b)"
    using a b by (rule tendsto_Pair)
  then show ?thesis by (auto simp: convergent_def)
qed

text \<open>
  Claim C6. Keyboard variant, any step \<open>dt > 0\<close>, any starting state, both inputs held
  at zero over successive updates: while the speed (the norm of the velocity) is not
  zero, each update makes it strictly smaller, by the factor \<open>friction\<close> at least; the
  speed tends to zero; and the position converges to a point.
\<close>

theorem zero_input_decay:
  assumes "0 < dt" and "ic_input_forward s = 0" and "ic_input_turn s = 0"
  shows "(vnorm (ic_velocity (ic_run dt k s)) \<noteq> 0 \<longrightarrow>
            vnorm (ic_velocity (ic_run dt (Suc k) s)) < vnorm (ic_velocity (ic_run dt k s)))
   \<and> vnorm (ic_velocity (ic_run dt (Suc k) s)) \<le> friction * vnorm (ic_velocity (ic_run dt k s))
   \<and> (\<lambda>n. vnorm (ic_velocity (ic_run dt n s))) \<longlonglongrightarrow> 0
   \<and> convergent (\<lambda>n. ic_position (ic_run dt n s))"
proof -
  let ?r = "vnorm (ic_velocity (ic_run dt k s))"
  have g: "vnorm (ic_velocity (ic_run dt (Suc k) s)) \<le> friction * ?r"
    by (rule zero_input_speed_step [OF assms])
  have "vnorm (ic_velocity (ic_run dt (Suc k) s)) < ?r" if "?r \<noteq> 0"
  proof -
    have "0 < ?r" using that vnorm_nonneg [of "ic_velocity (ic_run dt k s)"] by simp
    then have "friction * ?r < ?r" by (simp add: friction_def)
    with g show ?thesis by simp
  qed
  then show ?thesis
    using g zero_input_speed_tendsto [OF assms] zero_input_position_convergent [OF assms]
    by blast
qed

theorem zero_input_decay_witness:
  "(0::real) < 1 / 30
   \<and> ic_input_forward (InteractiveCharacter_init\<lparr>ic_velocity := (1, 0)\<rparr>) = 0
   \<and> ic_input_turn (InteractiveCharacter_init\<lparr>ic_velocity := (1, 0)\<rparr>) = 0
   \<and> vnorm (ic_velocity (ic_run (1 / 30) 0 (InteractiveCharacter_init\<lparr>ic_velocity := (1, 0)\<rparr>)))
       \<noteq> 0
   \<and> vnorm (ic_velocity (ic_run (1 / 30) (Suc 0)
         (InteractiveCharacter_init\<lparr>ic_velocity := (1, 0)\<rparr>)))
       < vnorm (ic_velocity (ic_run (1 / 30) 0 (InteractiveCharacter_init\<lparr>ic_velocity := (1, 0)\<rparr>)))
   \<and> (\<lambda>n. vnorm (ic_velocity (ic_run (1 / 30) n
         (InteractiveCharacter_init\<lparr>ic_velocity := (1, 0)\<rparr>)))) \<longlonglongrightarrow> 0
   \<and> convergent (\<lambda>n. ic_position (ic_run (1 / 30) n
         (InteractiveCharacter_init\<lparr>ic_velocity := (1, 0)\<rparr>)))"
proof -
  have h: "ic_input_forward (InteractiveCharacter_init\<lparr>ic_velocity := (1, 0)\<rparr>) = 0"
          "ic_input_turn (InteractiveCharacter_init\<lparr>ic_velocity := (1, 0)\<rparr>) = 0"
    by (simp_all add: InteractiveCharacter_init_def)
  have n: "vnorm (ic_velocity (ic_run (1 / 30) 0 (InteractiveCharacter_init\<lparr>ic_velocity := (1, 0)\<rparr>)))
             \<noteq> 0"
    by (simp add: ic_run_def vnorm_def)
  have p: "(0::real) < 1 / 30" by simp
  show ?thesis
    using zero_input_decay [OF p h, of 0] h n p by blast
qed

section \<open>The angle difference of the scripted update\<close>

lemma wrap_down_upper: "wrap_down a \<le> pi"
proof (induction a rule: wrap_down.induct)
  case (1 a)
  then show ?case by (subst wrap_down.simps) simp
qed

lemma wrap_down_strict: "- pi < a \<Longrightarrow> - pi < wrap_down a"
proof (induction a rule: wrap_down.induct)
  case (1 a)
  show ?case
  proof (cases "a > pi")
    case True
    then have "- pi < a - 2 * pi" by simp
    with 1 True show ?thesis by (subst wrap_down.simps) simp
  next
    case False
    with 1 show ?thesis by (subst wrap_down.simps) simp
  qed
qed

lemma wrap_up_lower: "- pi \<le> wrap_up a"
proof (induction a rule: wrap_up.induct)
  case (1 a)
  then show ?case by (subst wrap_up.simps) simp
qed

lemma wrap_up_upper: "a \<le> pi \<Longrightarrow> wrap_up a \<le> pi"
proof (induction a rule: wrap_up.induct)
  case (1 a)
  show ?case
  proof (cases "a < - pi")
    case True
    then have "a + 2 * pi \<le> pi" by simp
    with 1 True show ?thesis by (subst wrap_up.simps) simp
  next
    case False
    with 1 show ?thesis by (subst wrap_up.simps) simp
  qed
qed

lemma wrap_up_id: "- pi \<le> a \<Longrightarrow> wrap_up a = a"
  by (subst wrap_up.simps) simp

lemma wrap_down_id: "a \<le> pi \<Longrightarrow> wrap_down a = a"
  by (subst wrap_down.simps) simp

lemma normalized_angle_diff_range:
  "- pi \<le> normalized_angle_diff t r \<and> normalized_angle_diff t r \<le> pi"
  by (simp add: normalized_angle_diff_def wrap_up_lower wrap_up_upper wrap_down_upper)

lemma normalized_angle_diff_strict:
  "- pi < t - r \<Longrightarrow> - pi < normalized_angle_diff t r"
  using wrap_down_strict [of "t - r"] by (simp add: normalized_angle_diff_def wrap_up_id)

lemma pc_update_split: "ProceduralCharacter_update dt c = pc_face dt (pc_move dt c)"
  unfolding ProceduralCharacter_update_def pc_face_def pc_move_def pc_angle_diff_def Let_def
  by (rule refl)

lemma pc_face_rotation:
  "cs_rotation (pc_face dt m) = cs_rotation m + pc_angle_diff m * 5 * dt"
  by (simp add: pc_face_def Let_def pc_angle_diff_def)

lemma pc_face_lean:
  "cs_lean_angle (pc_face dt m) =
     cs_lean_angle m +
     (clip (pc_angle_diff m / max dt (1 / 1000) * (3 / 10)) (- max_lean_angle) max_lean_angle
        - cs_lean_angle m) * lean_interp_speed * dt"
  by (simp add: pc_face_def Let_def)

lemma pc_move_rotation: "cs_rotation (pc_move dt c) = cs_rotation c"
  by (simp add: pc_move_def Let_def)

lemma pc_move_lean: "cs_lean_angle (pc_move dt c) = cs_lean_angle c"
  by (simp add: pc_move_def Let_def)

lemma pc_angle_diff_range: "- pi \<le> pc_angle_diff m \<and> pc_angle_diff m \<le> pi"
  by (simp add: pc_angle_diff_def normalized_angle_diff_range)

text \<open>
  Claim C7, as stated, puts the normalized angle difference in the half-open interval
  \<open>(-\<pi>, \<pi>]\<close>. The second loop runs only while the difference is strictly below \<open>-\<pi>\<close>,
  so a difference of exactly \<open>-\<pi>\<close> stays: heading \<open>atan2 0 2 = 0\<close> against a rotation
  of \<open>\<pi>\<close> gives \<open>-\<pi>\<close>.
\<close>

theorem angle_diff_half_open_counterexample:
  "normalized_angle_diff (atan2 0 2) pi = - pi
   \<and> \<not> (- pi < normalized_angle_diff (atan2 0 2) pi)"
  by (simp add: normalized_angle_diff_def atan2_def wrap_down_id wrap_up_id)

text \<open>
  Claim C7, amended. For every heading and rotation the normalized angle difference
  lies in the closed interval \<open>[-\<pi>, \<pi>]\<close>, and is above \<open>-\<pi>\<close> whenever the raw difference
  is. In the scripted update this value (or 0 when the ground speed is at most 0.1) is
  both the factor of the rotation increment \<open>angle_diff * 5 * dt\<close> and the numerator of
  the yaw rate \<open>angle_diff / max dt 0.001\<close>.
\<close>

theorem angle_diff_closed_range:
  "- pi \<le> normalized_angle_diff target_rotation rotation
   \<and> normalized_angle_diff target_rotation rotation \<le> pi
   \<and> (- pi < target_rotation - rotation \<longrightarrow>
        - pi < normalized_angle_diff target_rotation rotation)
   \<and> - pi \<le> pc_angle_diff (pc_move dt c) \<and> pc_angle_diff (pc_move dt c) \<le> pi
   \<and> cs_rotation (ProceduralCharacter_update dt c) =
       cs_rotation c + pc_angle_diff (pc_move dt c) * 5 * dt
   \<and> cs_lean_angle (ProceduralCharacter_update dt c) =
       cs_lean_angle c +
       (clip (pc_angle_diff (pc_move dt c) / max dt (1 / 1000) * (3 / 10))
          (- max_lean_angle) max_lean_angle - cs_lean_angle c) * lean_interp_speed * dt"
  using normalized_angle_diff_range [of target_rotation rotation]
        normalized_angle_diff_strict [of target_rotation rotation]
        pc_angle_diff_range [of "pc_move dt c"]
  by (simp add: pc_update_split pc_face_rotation pc_face_lean pc_move_rotation pc_move_lean)

theorem angle_diff_closed_range_witness:
  "- pi < atan2 0 2 - 0 \<and> - pi < normalized_angle_diff (atan2 0 2) 0
   \<and> normalized_angle_diff (atan2 0 2) 0 \<le> pi"
  using angle_diff_closed_range [of "atan2 0 2" 0]
  by (simp add: atan2_def)

section \<open>The lean target\<close>

lemma ic_update_lean_spec:
  "ic_lean_angle (InteractiveCharacter_update dt s) =
     spec_lean_update (1 / 2) (ic_yaw_rate dt s) (ic_lean_angle s) dt"
  by (simp add: InteractiveCharacter_update_def Let_def spec_lean_update_def
        spec_target_lean_def ic_yaw_rate_def)

lemma target_near_start: "vnorm (vsub (target_position (1 / 30)) (0, 0)) \<le> 1 / 10"
proof -
  have a: "\<bar>sin (1 / 100 :: real)\<bar> \<le> 1 / 100"
    using abs_sin_x_le_abs_x [of "1 / 100 :: real"] by simp
  have b: "\<bar>sin (1 / 50 :: real)\<bar> \<le> 1 / 50"
    using abs_sin_x_le_abs_x [of "1 / 50 :: real"] by simp
  have a2: "(sin (1 / 100 :: real))\<^sup>2 \<le> (1 / 100)\<^sup>2"
    using a by (metis abs_le_square_iff abs_of_nonneg zero_le_divide_1_iff zero_le_numeral)
  have b2: "(sin (1 / 50 :: real))\<^sup>2 \<le> (1 / 50)\<^sup>2"
    using b by (metis abs_le_square_iff abs_of_nonneg zero_le_divide_1_iff zero_le_numeral)
  have "(3 * sin (1 / 100 :: real)) * (3 * sin (1 / 100)) + (3 / 2 * sin (1 / 50)) * (3 / 2 * sin (1 / 50))
          = 9 * (sin (1 / 100))\<^sup>2 + (9 / 4) * (sin (1 / 50))\<^sup>2"
    by (simp add: power2_eq_square)
  also have "\<dots> \<le> 9 * (1 / 100)\<^sup>2 + (9 / 4) * (1 / 50)\<^sup>2"
    using a2 b2 by (intro add_mono mult_left_mono) simp_all
  also have "\<dots> \<le> (1 / 10)\<^sup>2" by (simp add: power2_eq_square)
  finally have "sqrt ((3 * sin (1 / 100 :: real)) * (3 * sin (1 / 100)) + (3 / 2 * sin (1 / 50)) * (3 / 2 * sin (1 / 50))) \<le> 1 / 10"
    by (intro real_le_lsqrt) simp_all
  then show ?thesis
    by (simp add: vnorm_def vsub_def target_position_def Let_def)
qed

lemma mid_walk_move:
  "cs_velocity (pc_move (1 / 30) mid_walk) = (9 / 5, 0)"
  "cs_ground_speed (pc_move (1 / 30) mid_walk) = 9 / 5"
  using target_near_start
  by (simp_all add: pc_move_def Let_def mid_walk_def ProceduralCharacter_init_def vscale_def
        vnorm_x_axis)

lemma mid_walk_angle: "pc_angle_diff (pc_move (1 / 30) mid_walk) = 1 / 100"
proof -
  have p: "(1 / 100 :: real) \<le> pi" using pi_ge_two by simp
  have r: "cs_rotation (pc_move (1 / 30) mid_walk) = - (1 / 100)"
    by (simp add: pc_move_rotation mid_walk_def ProceduralCharacter_init_def)
  show ?thesis
    using p by (simp add: pc_angle_diff_def mid_walk_move r atan2_def normalized_angle_diff_def
                  wrap_down_id wrap_up_id)
qed

lemma spec_value: "spec_lean_update (3 / 10) (3 / 10) 0 (1 / 30) = (81 / 25) / pi"
proof -
  have "(81 / 5) / pi \<le> (81 / 5) / 2" using pi_ge_two by (intro divide_left_mono) simp_all
  then have u: "(81 / 5) / pi \<le> 20" by simp
  have l: "- 20 \<le> (81 / 5) / pi" by (rule order_trans [of _ 0]) simp_all
  have "degrees (3 / 10) * (3 / 10) = (81 / 5) / pi" by (simp add: degrees_def)
  then have "spec_target_lean (3 / 10) (3 / 10) = (81 / 5) / pi"
    using u l by (simp add: spec_target_lean_def clip_def max_lean_angle_def)
  then show ?thesis by (simp add: spec_lean_update_def lean_interp_speed_def)
qed

lemma spec_value_big: "4 / 5 < spec_lean_update (3 / 10) (3 / 10) 0 (1 / 30)"
proof -
  have "(81 / 25) / 4 < (81 / 25) / pi" using pi_less_4 by (intro divide_strict_left_mono) simp_all
  then show ?thesis unfolding spec_value by simp
qed

lemma mid_walk_lean: "cs_lean_angle (ProceduralCharacter_update (1 / 30) mid_walk) = 9 / 500"
proof -
  have l: "cs_lean_angle (pc_move (1 / 30) mid_walk) = 0"
    by (simp add: pc_move_lean mid_walk_def ProceduralCharacter_init_def)
  show ?thesis
    by (simp add: pc_update_split pc_face_lean mid_walk_angle l clip_def max_lean_angle_def
          lean_interp_speed_def)
qed

text \<open>
  Claim C2 on the code. The keyboard update is the specified derivation with gain 1/2:
  it converts the yaw rate to degrees before the gain. The scripted update multiplies
  the yaw rate, which is in radians per second, by its gain 3/10 without converting
  it. From \<open>mid_walk\<close> with the step 1/30 the yaw rate is 3/10 rad/s and the new lean
  angle is 9/500, where the specified derivation with the same gain gives more than
  4/5.
\<close>

theorem scripted_lean_skips_degree_conversion:
  "pc_angle_diff (pc_move (1 / 30) mid_walk) / max (1 / 30) (1 / 1000) = 3 / 10
   \<and> cs_lean_angle (ProceduralCharacter_update (1 / 30) mid_walk) = 9 / 500
   \<and> 4 / 5 < spec_lean_update (3 / 10) (3 / 10) (cs_lean_angle mid_walk) (1 / 30)
   \<and> cs_lean_angle (ProceduralCharacter_update (1 / 30) mid_walk) \<noteq>
       spec_lean_update (3 / 10) (3 / 10) (cs_lean_angle mid_walk) (1 / 30)
   \<and> ic_lean_angle (InteractiveCharacter_update dt s) =
       spec_lean_update (1 / 2) (ic_yaw_rate dt s) (ic_lean_angle s) dt"
proof -
  have z: "cs_lean_angle mid_walk = 0"
    by (simp add: mid_walk_def ProceduralCharacter_init_def)
  have y: "pc_angle_diff (pc_move (1 / 30) mid_walk) / max (1 / 30) (1 / 1000) = 3 / 10"
    by (simp add: mid_walk_angle)
  show ?thesis
    using y mid_walk_lean spec_value_big ic_update_lean_spec [of dt s] unfolding z by simp
qed

section \<open>Properties of the skeleton derivation\<close>

lemma right_phase_is_minus_left: "right_phase_of t = - left_phase_of t"
  by (simp add: right_phase_of_def left_phase_of_def)

text \<open>
  Claim C8. For every stride time the right-leg phase \<open>sin (stride_time + \<pi>)\<close> is the
  negative of the left-leg phase \<open>sin stride_time\<close>; so in both variants the right foot
  is placed by the left phase negated.
\<close>

theorem leg_phases_antiphase:
  "right_phase_of t = - left_phase_of t
   \<and> right_foot (fst (InteractiveCharacter_get_skeleton_points s)) =
       rotate_point (fst (ic_position s)) (snd (ic_position s)) (radians (ic_lean_angle s))
         (cos (ic_rotation s)) (sin (ic_rotation s))
         (2 / 10 - left_phase_of (ic_stride_time s) * (3 / 10))
         (- leg_length + \<bar>left_phase_of (ic_stride_time s)\<bar> * (2 / 10))
   \<and> right_foot (fst (ProceduralCharacter_get_skeleton_points c)) =
       rotate_point (fst (cs_position c)) (snd (cs_position c)) (radians (cs_lean_angle c))
         (cos (cs_rotation c)) (sin (cs_rotation c))
         (2 / 10 - left_phase_of (cs_stride_time c) * (3 / 10))
         (- leg_length + \<bar>left_phase_of (cs_stride_time c)\<bar> * (2 / 10))"
  by (simp add: right_phase_is_minus_left InteractiveCharacter_get_skeleton_points_def
        ProceduralCharacter_get_skeleton_points_def Let_def)

text \<open>
  Claim C9. The keyboard variant's stride time is \<open>time * max ground_speed 0.5 * 2\<close> and
  the scripted variant's is \<open>time * ground_speed * 2\<close>, as the left foot of each pose
  shows. At a ground speed of at most 0.5 the keyboard stride time is the time itself, so
  the cycle goes on at rest; at ground speed 0 the scripted stride time is 0 whatever the
  time, and the left foot stays at its rest offset \<open>(-0.2, -leg_length)\<close>.
\<close>

theorem stride_time_per_variant:
  "left_foot (fst (InteractiveCharacter_get_skeleton_points s)) =
       rotate_point (fst (ic_position s)) (snd (ic_position s)) (radians (ic_lean_angle s))
         (cos (ic_rotation s)) (sin (ic_rotation s))
         (- (2 / 10) + sin (ic_time s * max (ic_ground_speed s) (1 / 2) * 2) * (3 / 10))
         (- leg_length + \<bar>sin (ic_time s * max (ic_ground_speed s) (1 / 2) * 2)\<bar> * (2 / 10))
   \<and> left_foot (fst (ProceduralCharacter_get_skeleton_points c)) =
       rotate_point (fst (cs_position c)) (snd (cs_position c)) (radians (cs_lean_angle c))
         (cos (cs_rotation c)) (sin (cs_rotation c))
         (- (2 / 10) + sin (cs_time c * cs_ground_speed c * 2) * (3 / 10))
         (- leg_length + \<bar>sin (cs_time c * cs_ground_speed c * 2)\<bar> * (2 / 10))
   \<and> ic_stride_time s = ic_time s * max (ic_ground_speed s) (1 / 2) * 2
   \<and> cs_stride_time c = cs_time c * cs_ground_speed c * 2
   \<and> (ic_ground_speed s \<le> 1 / 2 \<longrightarrow> ic_stride_time s = ic_time s)
   \<and> (cs_ground_speed c = 0 \<longrightarrow>
        cs_stride_time c = 0
        \<and> left_foot (fst (ProceduralCharacter_get_skeleton_points c)) =
            rotate_point (fst (cs_position c)) (snd (cs_position c)) (radians (cs_lean_angle c))
              (cos (cs_rotation c)) (sin (cs_rotation c)) (- (2 / 10)) (- leg_length))"
  by (simp add: InteractiveCharacter_get_skeleton_points_def
        ProceduralCharacter_get_skeleton_points_def Let_def left_phase_of_def
        ic_stride_time_def cs_stride_time_def)

theorem stride_time_per_variant_witness:
  "ic_ground_speed (InteractiveCharacter_init\<lparr>ic_time := 7\<rparr>) \<le> 1 / 2
   \<and> ic_stride_time (InteractiveCharacter_init\<lparr>ic_time := 7\<rparr>) = 7
   \<and> cs_ground_speed (ProceduralCharacter_init\<lparr>cs_time := 7\<rparr>) = 0
   \<and> cs_stride_time (ProceduralCharacter_init\<lparr>cs_time := 7\<rparr>) = 0
   \<and> left_foot (fst (ProceduralCharacter_get_skeleton_points
        (ProceduralCharacter_init\<lparr>cs_time := 7\<rparr>))) = (- (2 / 10), - leg_length)"
  using stride_time_per_variant
          [of "InteractiveCharacter_init\<lparr>ic_time := 7\<rparr>" "ProceduralCharacter_init\<lparr>cs_time := 7\<rparr>"]
  by (simp add: InteractiveCharacter_init_def ProceduralCharacter_init_def rotate_point_def
        radians_def)

end
